theory Spec2Isabelle
  imports Complex_Main
begin

section \<open>Data model of \<^verbatim>\<open>airflow/models/taskinstance.py\<close>\<close>

text \<open>
  Points in time (\<^verbatim>\<open>datetime\<close>) and durations (\<^verbatim>\<open>timedelta\<close>) are integers counting
  microseconds, the resolution of both Python types. The column \<^verbatim>\<open>duration\<close>, a float
  number of seconds in the source, is kept as the same difference in microseconds.
\<close>

type_synonym datetime = int
type_synonym timedelta = int

text \<open>The members of \<^verbatim>\<open>TaskInstanceState\<close>; the state \<^verbatim>\<open>None\<close> is \<open>None\<close> of the option type.\<close>

datatype TaskInstanceState =
    REMOVED | SCHEDULED | QUEUED | RUNNING | SUCCESS | RESTARTING | FAILED
  | UP_FOR_RETRY | UP_FOR_RESCHEDULE | UPSTREAM_FAILED | SKIPPED | DEFERRED

text \<open>
  A task group on the path from an operator to the root of its DAG: its \<^verbatim>\<open>group_id\<close> and
  whether it is a \<^verbatim>\<open>MappedTaskGroup\<close>. The chain \<^verbatim>\<open>task_group, task_group.parent_group, ...\<close>
  of an operator is the list of these, innermost first.
\<close>

record TaskGroup =
  group_id :: string
  is_mapped_group :: bool

record DAG =
  dag_dag_id :: string
  fail_fast :: bool

text \<open>
  The attributes of an operator that \<^verbatim>\<open>taskinstance.py\<close> reads. \<open>is_mapped_operator\<close> is
  \<^verbatim>\<open>isinstance(task, MappedOperator)\<close>; \<open>mapped_dependants\<close> lists what
  \<^verbatim>\<open>iter_mapped_dependants()\<close> yields; \<open>get_weight\<close> is the result of
  \<^verbatim>\<open>weight_rule.get_weight(ti)\<close>, \<open>None\<close> when that call raises. Callback attributes are
  the lists of callback names, \<^verbatim>\<open>None\<close> being the empty list (both are falsy).
\<close>

record Operator =
  op_task_id :: string
  dag :: "DAG option"
  task_group_chain :: "TaskGroup list"
  is_mapped_operator :: bool
  mapped_dependants :: "string list"
  retries :: "int option"
  retry_delay :: timedelta
  retry_exponential_backoff :: bool
  max_retry_delay :: "timedelta option"
  execution_timeout :: "timedelta option"
  is_teardown :: bool
  do_xcom_push :: bool
  multiple_outputs :: bool
  op_queue :: string
  op_pool :: string
  op_pool_slots :: int
  get_weight :: "int option"
  op_run_as_user :: "string option"
  op_executor :: "string option"
  op_executor_config :: string
  task_type :: string
  op_custom_operator_name :: "string option"
  email :: "string list"
  email_on_failure :: bool
  email_on_retry :: bool
  on_failure_callback :: "string list"
  on_retry_callback :: "string list"

text \<open>
  A task instance: the columns of the row, followed by the attributes that live on the
  Python object only (\<open>task\<close>, \<open>test_mode\<close>, \<open>run_as_user\<close>). \<open>logical_date\<close> is read
  through the owning DAG run.
\<close>

record TaskInstance =
  dag_id :: string
  task_id :: string
  run_id :: string
  map_index :: int
  state :: "TaskInstanceState option"
  try_number :: int
  max_tries :: int
  try_id :: nat
  start_date :: "datetime option"
  end_date :: "datetime option"
  duration :: "timedelta option"
  queued_dttm :: "datetime option"
  updated_at :: "datetime option"
  logical_date :: "datetime option"
  hostname :: string
  pid :: "nat option"
  pool :: string
  queue :: string
  pool_slots :: int
  priority_weight :: int
  executor :: "string option"
  executor_config :: string
  operator :: string
  custom_operator_name :: "string option"
  external_executor_id :: "string option"
  next_method :: "string option"
  next_kwargs :: "string option"
  task :: "Operator option"
  test_mode :: bool
  run_as_user :: "string option"

type_synonym ti_key = "string \<times> string \<times> string \<times> int"

definition primary_key :: "TaskInstance \<Rightarrow> ti_key" where
  "primary_key ti = (dag_id ti, task_id ti, run_id ti, map_index ti)"

text \<open>
  What the code can observe of the world outside the Python object: the task-instance
  table keyed by primary key, the audit log, the task-instance history, the result store
  (XCom) keyed by task instance and key, the map summaries (\<^verbatim>\<open>TaskMap\<close>, the recorded
  length), and the callbacks, e-mail alerts and \<^verbatim>\<open>on_kill\<close> hooks that were run, most
  recent first. A task instance object is detached: its attributes reach the table only
  through \<^verbatim>\<open>session.merge\<close>, which the source calls wherever it wants a change persisted.
\<close>

datatype event = RanCallbacks "string list" | EmailAlert "string list" | OnKill

text \<open>
  A value a task returns, as far as the result push looks at it: whether it is a mapping,
  and whether the keys of a mapping are strings.
\<close>

datatype xcom_key = StrKey string | OtherKey int

datatype xcom_value =
    IntValue int | StrValue string | ListValue "xcom_value list"
  | DictValue "(xcom_key \<times> xcom_value) list"

record World =
  ti_table :: "ti_key \<rightharpoonup> TaskInstance"
  log_table :: "(TaskInstanceState \<times> ti_key) list"
  history :: "TaskInstance list"
  xcom_table :: "ti_key \<times> string \<rightharpoonup> xcom_value"
  task_map_table :: "ti_key \<rightharpoonup> int"
  events :: "event list"

definition merge :: "TaskInstance \<Rightarrow> World \<Rightarrow> World" where
  "merge ti w = w\<lparr>ti_table := (ti_table w)(primary_key ti \<mapsto> ti)\<rparr>"

text \<open>\<^verbatim>\<open>ti.state in State.finished\<close>; the frozen set \<^verbatim>\<open>State.finished\<close> is a parameter.\<close>

definition in_finished :: "TaskInstanceState set \<Rightarrow> TaskInstanceState option \<Rightarrow> bool" where
  "in_finished finished st = (case st of None \<Rightarrow> False | Some s \<Rightarrow> s \<in> finished)"

section \<open>Setting the state\<close>

text \<open>
  \<^verbatim>\<open>TaskInstance._set_state\<close> as \<^verbatim>\<open>set_state\<close> calls it, with \<^verbatim>\<open>ti=self\<close> a
  \<^verbatim>\<open>TaskInstance\<close>. \<open>current_time\<close> is what \<^verbatim>\<open>timezone.utcnow()\<close> returns. The result is
  the returned flag, the object and the world after the call.
\<close>

definition set_state ::
  "TaskInstanceState set \<Rightarrow> datetime \<Rightarrow> TaskInstance \<Rightarrow> TaskInstanceState option \<Rightarrow> World
    \<Rightarrow> bool \<times> TaskInstance \<times> World" where
  "set_state finished current_time ti st w =
    (if state ti = st then (False, ti, w)
     else
       let sd = (case start_date ti of Some d \<Rightarrow> d | None \<Rightarrow> current_time);
           ti1 = ti\<lparr>state := st, start_date := Some sd\<rparr>;
           ti2 = (if in_finished finished (state ti1) \<or> state ti1 = Some UP_FOR_RETRY
                  then
                    let ed = (case end_date ti1 of Some d \<Rightarrow> d | None \<Rightarrow> current_time)
                    in ti1\<lparr>end_date := Some ed, duration := Some (ed - sd)\<rparr>
                  else ti1)
       in (True, ti2, merge ti2 w))"

section \<open>Retry eligibility\<close>

text \<open>
  \<^verbatim>\<open>_is_eligible_to_retry\<close>. The source returns \<^verbatim>\<open>task.retries and ...\<close>; the model
  returns the truth value of that expression (\<^verbatim>\<open>None\<close> and \<^verbatim>\<open>0\<close> are falsy).
\<close>

definition is_eligible_to_retry :: "TaskInstance \<Rightarrow> bool" where
  "is_eligible_to_retry ti =
    (if state ti = Some RESTARTING then True
     else case task ti of
       None \<Rightarrow> try_number ti \<le> max_tries ti
     | Some t \<Rightarrow> (retries t \<noteq> None \<and> retries t \<noteq> Some 0) \<and> try_number ti \<le> max_tries ti)"

section \<open>Exceptions\<close>

text \<open>
  The exceptions the modelled code raises or handles. The two \<^verbatim>\<open>AirflowException\<close>s of
  the result push and the one raised for a mapped operator differ in their message only,
  so each has a constructor of its own; \<open>AirflowException\<close> is any other instance of that
  class.
\<close>

datatype exn =
    TypeError | AttributeError | OverflowError | ZeroDivisionError | KeyError string | ValueError
  | AirflowException | AirflowException_expected_dictionary | AirflowException_keys_must_be_strings
  | AirflowException_mapped_operator
  | AirflowFailException | AirflowSensorTimeout | AirflowTaskTimeout | AirflowTaskTerminated
  | XComForMappingNotPushed | UnmappableXComTypePushed | UnmappableXComLengthPushed
  | SystemExit "int option" | OtherBaseException

section \<open>Retry delay and readiness\<close>








section \<open>Mapped-index resolution\<close>







section \<open>Termination signal\<close>



section \<open>Executing the task and pushing its result\<close>

definition XCOM_RETURN_KEY :: string where
  "XCOM_RETURN_KEY = ''return_value''"

text \<open>The truth value of an optional string: \<^verbatim>\<open>None\<close> and the empty string are falsy.\<close>

definition truthy :: "string option \<Rightarrow> bool" where
  "truthy s = (case s of None \<Rightarrow> False | Some x \<Rightarrow> x \<noteq> [])"

definition xcom_push :: "TaskInstance \<Rightarrow> string \<Rightarrow> xcom_value \<Rightarrow> World \<Rightarrow> World" where
  "xcom_push ti k v w = w\<lparr>xcom_table := (xcom_table w)((primary_key ti, k) \<mapsto> v)\<rparr>"

text \<open>
  \<^verbatim>\<open>_record_task_map_for_downstreams\<close>. \<open>is_mappable_value\<close> is the SDK's predicate of that
  name, \<open>map_length\<close> the length \<^verbatim>\<open>TaskMap.from_task_instance_xcom\<close> records, and
  \<open>max_map_length\<close> the configured \<^verbatim>\<open>core.max_map_length\<close>.
\<close>

definition record_task_map_for_downstreams ::
  "(xcom_value \<Rightarrow> bool) \<Rightarrow> (xcom_value \<Rightarrow> int) \<Rightarrow> int \<Rightarrow> TaskInstance \<Rightarrow> Operator
    \<Rightarrow> xcom_value option \<Rightarrow> World \<Rightarrow> exn + World" where
  "record_task_map_for_downstreams is_mappable_value map_length max_map_length ti t v w =
    (if mapped_dependants t = [] then Inr w
     else if is_mapped_operator t then Inr w
     else
       (case v of
          None \<Rightarrow> Inl XComForMappingNotPushed
        | Some x \<Rightarrow>
            if \<not> is_mappable_value x then Inl UnmappableXComTypePushed
            else if max_map_length < map_length x then Inl UnmappableXComLengthPushed
            else Inr (w\<lparr>task_map_table := (task_map_table w)(primary_key ti \<mapsto> map_length x)\<rparr>)))"

text \<open>
  The nested function \<^verbatim>\<open>_execute_callable\<close>: \<open>run\<close> is what running the operator's
  \<^verbatim>\<open>execute\<close> (or \<^verbatim>\<open>resume_execution\<close>) returns or raises.
\<close>

definition execute_callable :: "exn + xcom_value option \<Rightarrow> exn + xcom_value option" where
  "execute_callable run =
    (case run of
       Inl (SystemExit code) \<Rightarrow>
         (case code of
            None \<Rightarrow> Inr None
          | Some c \<Rightarrow> if c \<noteq> 0 then Inl (SystemExit code) else Inr None)
     | _ \<Rightarrow> run)"

text \<open>The push of a mapping's entries, one \<^verbatim>\<open>xcom_push\<close> per item in order.\<close>

fun push_items :: "TaskInstance \<Rightarrow> (xcom_key \<times> xcom_value) list \<Rightarrow> World \<Rightarrow> World" where
  "push_items ti [] w = w"
| "push_items ti ((StrKey k, v) # items) w = push_items ti items (xcom_push ti k v w)"
| "push_items ti ((OtherKey k, v) # items) w = push_items ti items w"

definition is_str :: "xcom_key \<Rightarrow> bool" where
  "is_str k = (case k of StrKey s \<Rightarrow> True | OtherKey n \<Rightarrow> False)"

text \<open>\<^verbatim>\<open>isinstance(xcom_value, Mapping)\<close>, and the items of a mapping.\<close>

definition is_mapping :: "xcom_value \<Rightarrow> bool" where
  "is_mapping v = (case v of DictValue items \<Rightarrow> True | _ \<Rightarrow> False)"

definition mapping_items :: "xcom_value \<Rightarrow> (xcom_key \<times> xcom_value) list" where
  "mapping_items v = (case v of DictValue items \<Rightarrow> items | _ \<Rightarrow> [])"

text \<open>
  The part of \<^verbatim>\<open>_execute_task\<close> that runs the callable, with the timeout if one is
  configured (\<^verbatim>\<open>if task_to_execute.execution_timeout: ... else: ...\<close>). \<open>t\<close> is
  \<^verbatim>\<open>task_to_execute\<close>; a timeout runs the \<^verbatim>\<open>on_kill\<close> hook and is raised again.
\<close>

definition call_with_timeout ::
  "datetime \<Rightarrow> (exn + xcom_value option) \<Rightarrow> TaskInstance \<Rightarrow> Operator \<Rightarrow> World
    \<Rightarrow> (exn + xcom_value option) \<times> World" where
  "call_with_timeout utcnow run ti t w =
    (case execution_timeout t of
       None \<Rightarrow> (execute_callable run, w)
     | Some limit \<Rightarrow>
         if limit = 0 then (execute_callable run, w)
         else
           let timeout_seconds =
             (case start_date ti of
                None \<Rightarrow> limit
              | Some sd \<Rightarrow> if truthy (next_method ti) then limit - (utcnow - sd) else limit)
           in if timeout_seconds \<le> 0
              then (Inl AirflowTaskTimeout, w\<lparr>events := OnKill # events w\<rparr>)
              else
                (case execute_callable run of
                   Inl AirflowTaskTimeout \<Rightarrow>
                     (Inl AirflowTaskTimeout, w\<lparr>events := OnKill # events w\<rparr>)
                 | r \<Rightarrow> (r, w)))"

text \<open>
  The block of \<^verbatim>\<open>_execute_task\<close> under \<^verbatim>\<open>with cm as session_or_null\<close>, from the result of
  the callable on. The items of a mapping are pushed only after every key has passed the
  check, so \<open>push_items\<close> meets string keys only.
\<close>

definition push_result ::
  "(xcom_value \<Rightarrow> bool) \<Rightarrow> (xcom_value \<Rightarrow> int) \<Rightarrow> int \<Rightarrow> TaskInstance \<Rightarrow> Operator \<Rightarrow> Operator
    \<Rightarrow> xcom_value option \<Rightarrow> World \<Rightarrow> exn + World" where
  "push_result is_mappable_value map_length max_map_length ti t task_orig result w =
    (let xcom_value = (if do_xcom_push t then result else None) in
     case
       (case xcom_value of
          None \<Rightarrow> Inr w
        | Some v \<Rightarrow>
            if multiple_outputs t then
              if \<not> is_mapping v then Inl AirflowException_expected_dictionary
              else if list_ex (\<lambda>k. \<not> is_str k) (map fst (mapping_items v))
              then Inl AirflowException_keys_must_be_strings
              else Inr (xcom_push ti XCOM_RETURN_KEY v (push_items ti (mapping_items v) w))
            else Inr (xcom_push ti XCOM_RETURN_KEY v w))
     of
       Inl e \<Rightarrow> Inl e
     | Inr w1 \<Rightarrow>
         record_task_map_for_downstreams is_mappable_value map_length max_map_length
           ti task_orig xcom_value w1)"

text \<open>
  \<^verbatim>\<open>_execute_task\<close>, from the two parts above. The session of the push is the context
  manager \<^verbatim>\<open>create_session()\<close>, which rolls back when an exception leaves it: a failed
  push leaves the tables as they were. The result is what the function returns or raises,
  and the world after it.
\<close>

definition execute_task ::
  "(xcom_value \<Rightarrow> bool) \<Rightarrow> (xcom_value \<Rightarrow> int) \<Rightarrow> int \<Rightarrow> datetime \<Rightarrow> (exn + xcom_value option)
    \<Rightarrow> TaskInstance \<Rightarrow> Operator \<Rightarrow> World \<Rightarrow> (exn + xcom_value option) \<times> World" where
  "execute_task is_mappable_value map_length max_map_length utcnow run ti task_orig w =
    (case task ti of
       None \<Rightarrow> (Inl AttributeError, w)
     | Some t \<Rightarrow>
         if is_mapped_operator t then (Inl AirflowException_mapped_operator, w)
         else
           (case call_with_timeout utcnow run ti t w of
              (Inl e, w1) \<Rightarrow> (Inl e, w1)
            | (Inr result, w1) \<Rightarrow>
                (case push_result is_mappable_value map_length max_map_length ti t task_orig
                        result w1 of
                   Inl e \<Rightarrow> (Inl e, w1)
                 | Inr w2 \<Rightarrow> (Inr result, w2))))"

section \<open>Refreshing and saving a task instance\<close>







section \<open>Admission to running\<close>




section \<open>Failure handling\<close>















section \<open>Concrete instances\<close>

text \<open>A task, a task instance of it and a world holding that instance, to evaluate the model on.\<close>

definition example_task :: Operator where
  "example_task =
    \<lparr>op_task_id = ''extract'', dag = Some \<lparr>dag_dag_id = ''etl'', fail_fast = True\<rparr>,
     task_group_chain = [], is_mapped_operator = False, mapped_dependants = [],
     retries = Some 3, retry_delay = 300000000, retry_exponential_backoff = True,
     max_retry_delay = None, execution_timeout = None, is_teardown = False,
     do_xcom_push = True, multiple_outputs = False, op_queue = ''default'',
     op_pool = ''default_pool'', op_pool_slots = 1, get_weight = Some 1,
     op_run_as_user = None, op_executor = None, op_executor_config = [],
     task_type = ''PythonOperator'', op_custom_operator_name = None, email = [],
     email_on_failure = True, email_on_retry = True, on_failure_callback = [],
     on_retry_callback = []\<rparr>"

definition example_ti :: TaskInstance where
  "example_ti =
    \<lparr>dag_id = ''etl'', task_id = ''extract'', run_id = ''run1'', map_index = - 1,
     state = Some RUNNING, try_number = 1, max_tries = 3, try_id = 7,
     start_date = Some 1000, end_date = None, duration = None, queued_dttm = Some 900,
     updated_at = None, logical_date = Some 0, hostname = ''worker'', pid = Some 42,
     pool = ''default_pool'', queue = ''default'', pool_slots = 1, priority_weight = 1,
     executor = None, executor_config = [], operator = ''PythonOperator'',
     custom_operator_name = None, external_executor_id = None, next_method = None,
     next_kwargs = None, task = Some example_task, test_mode = False, run_as_user = None\<rparr>"

definition example_world :: World where
  "example_world =
    \<lparr>ti_table = [primary_key example_ti \<mapsto> example_ti], log_table = [], history = [],
     xcom_table = Map.empty, task_map_table = Map.empty, events = []\<rparr>"








text \<open>
  A mappable-value predicate and a length for the values of the model: lists and
  mappings are mappable, and their length is the number of their elements.
\<close>

definition example_is_mappable :: "xcom_value \<Rightarrow> bool" where
  "example_is_mappable v =
    (case v of ListValue xs \<Rightarrow> True | DictValue items \<Rightarrow> True | _ \<Rightarrow> False)"

definition example_map_length :: "xcom_value \<Rightarrow> int" where
  "example_map_length v =
    (case v of ListValue xs \<Rightarrow> int (length xs) | DictValue items \<Rightarrow> int (length items) | _ \<Rightarrow> 0)"












section \<open>Properties\<close>

text \<open>
  C10. \<^verbatim>\<open>set_state\<close> returns \<^verbatim>\<open>False\<close> and changes neither the object nor the table when
  the instance is already in the target state, so that a second call with the same state
  does nothing; otherwise it returns \<^verbatim>\<open>True\<close>, sets the state, sets \<^verbatim>\<open>start_date\<close> to the
  current time if it was unset, sets \<^verbatim>\<open>end_date\<close> (if unset) and \<^verbatim>\<open>duration\<close> whenever the
  new state is finished or \<^verbatim>\<open>up_for_retry\<close>, and merges the object into the table.
\<close>

theorem set_state_contract:
  "(state ti = s \<longrightarrow> set_state fin now ti s w = (False, ti, w))
   \<and> (state ti \<noteq> s \<longrightarrow>
        (\<exists>ti'. set_state fin now ti s w = (True, ti', merge ti' w)
           \<and> state ti' = s
           \<and> start_date ti' = Some (case start_date ti of Some d \<Rightarrow> d | None \<Rightarrow> now)
           \<and> (in_finished fin s \<or> s = Some UP_FOR_RETRY \<longrightarrow>
                end_date ti' = Some (case end_date ti of Some d \<Rightarrow> d | None \<Rightarrow> now)
                \<and> duration ti' = Some ((case end_date ti of Some d \<Rightarrow> d | None \<Rightarrow> now)
                                        - (case start_date ti of Some d \<Rightarrow> d | None \<Rightarrow> now)))
           \<and> (\<not> (in_finished fin s \<or> s = Some UP_FOR_RETRY) \<longrightarrow>
                end_date ti' = end_date ti \<and> duration ti' = duration ti)
           \<and> set_state fin now' ti' s (merge ti' w) = (False, ti', merge ti' w)))"
  by (simp add: set_state_def Let_def)

theorem set_state_contract_witness:
  "state example_ti = Some RUNNING
   \<and> set_state {SUCCESS, FAILED, SKIPPED} 5000 example_ti (Some RUNNING) example_world
       = (False, example_ti, example_world)
   \<and> state example_ti \<noteq> Some SKIPPED
   \<and> (\<exists>ti'. set_state {SUCCESS, FAILED, SKIPPED} 5000 example_ti (Some SKIPPED) example_world
               = (True, ti', merge ti' example_world)
          \<and> state ti' = Some SKIPPED \<and> start_date ti' = Some 1000
          \<and> end_date ti' = Some 5000 \<and> duration ti' = Some 4000
          \<and> set_state {SUCCESS, FAILED, SKIPPED} 6000 ti' (Some SKIPPED) (merge ti' example_world)
              = (False, ti', merge ti' example_world))"
  using set_state_contract [of example_ti "Some RUNNING" "{SUCCESS, FAILED, SKIPPED}" 5000
      example_world 6000]
    set_state_contract [of example_ti "Some SKIPPED" "{SUCCESS, FAILED, SKIPPED}" 5000
      example_world 6000]
  by (simp add: example_ti_def in_finished_def)

text \<open>
  C4, as amended. A task instance is eligible to retry if and only if it is in state
  \<^verbatim>\<open>restarting\<close>, or \<^verbatim>\<open>try_number <= max_tries\<close> and either its task could not be loaded
  or the task declares a nonzero retry count. So an instance not in \<^verbatim>\<open>restarting\<close> whose
  \<^verbatim>\<open>try_number\<close> exceeds \<^verbatim>\<open>max_tries\<close> is never eligible, one whose task declares retries
  is eligible at \<^verbatim>\<open>try_number = max_tries\<close>, and one in \<^verbatim>\<open>restarting\<close> always is.
\<close>

theorem is_eligible_to_retry_iff:
  "(is_eligible_to_retry ti \<longleftrightarrow>
      state ti = Some RESTARTING
      \<or> try_number ti \<le> max_tries ti
        \<and> (case task ti of None \<Rightarrow> True | Some t \<Rightarrow> retries t \<noteq> None \<and> retries t \<noteq> Some 0))
   \<and> (state ti \<noteq> Some RESTARTING \<and> max_tries ti < try_number ti \<longrightarrow> \<not> is_eligible_to_retry ti)
   \<and> (task ti = Some t \<and> retries t = Some r \<and> r \<noteq> 0 \<and> try_number ti = max_tries ti
        \<longrightarrow> is_eligible_to_retry ti)
   \<and> (state ti = Some RESTARTING \<longrightarrow> is_eligible_to_retry ti)"
  by (auto simp: is_eligible_to_retry_def split: option.splits)

theorem is_eligible_to_retry_iff_witness:
  "\<not> is_eligible_to_retry (example_ti\<lparr>max_tries := 3, try_number := 4\<rparr>)
   \<and> is_eligible_to_retry (example_ti\<lparr>max_tries := 3, try_number := 3\<rparr>)
   \<and> is_eligible_to_retry (example_ti\<lparr>state := Some RESTARTING, max_tries := 3, try_number := 9\<rparr>)
   \<and> is_eligible_to_retry (example_ti\<lparr>task := None, max_tries := 3, try_number := 1\<rparr>)"
  using is_eligible_to_retry_iff [of "example_ti\<lparr>max_tries := 3, try_number := 4\<rparr>" example_task 3]
    is_eligible_to_retry_iff [of "example_ti\<lparr>max_tries := 3, try_number := 3\<rparr>" example_task 3]
    is_eligible_to_retry_iff
      [of "example_ti\<lparr>state := Some RESTARTING, max_tries := 3, try_number := 9\<rparr>" example_task 3]
    is_eligible_to_retry_iff
      [of "example_ti\<lparr>task := None, max_tries := 3, try_number := 1\<rparr>" example_task 3]
  by (simp add: example_ti_def example_task_def)

text \<open>
  Eligible if and only if \<^verbatim>\<open>restarting\<close> or the task declares a nonzero retry count and
  \<^verbatim>\<open>try_number <= max_tries\<close> fails for an instance whose task could not be loaded: it
  is eligible, not in \<^verbatim>\<open>restarting\<close>, and has no task to declare a retry count.
\<close>

theorem is_eligible_to_retry_counterexample:
  "is_eligible_to_retry (example_ti\<lparr>task := None\<rparr>)
   \<and> state (example_ti\<lparr>task := None\<rparr>) \<noteq> Some RESTARTING
   \<and> task (example_ti\<lparr>task := None\<rparr>) = None
   \<and> try_number (example_ti\<lparr>task := None\<rparr>) \<le> max_tries (example_ti\<lparr>task := None\<rparr>)"
  by (simp add: is_eligible_to_retry_def example_ti_def)


subsection \<open>Retry backoff\<close>








subsection \<open>Readiness for retry\<close>




subsection \<open>Mapped-index resolution\<close>





subsection \<open>Termination signal\<close>




subsection \<open>Result push\<close>

text \<open>The callable's result comes back when no timeout is configured or time remains.\<close>

lemma call_with_timeout_returns:
  "execute_callable run = Inr r \<Longrightarrow>
   (case execution_timeout t of
      None \<Rightarrow> True
    | Some limit \<Rightarrow>
        limit = 0
        \<or> 0 < (case start_date ti of
                 None \<Rightarrow> limit
               | Some sd \<Rightarrow> if truthy (next_method ti) then limit - (utcnow - sd) else limit))
   \<Longrightarrow> call_with_timeout utcnow run ti t w = (Inr r, w)"
  by (auto simp: call_with_timeout_def Let_def split: option.splits)

text \<open>
  C7, as amended. When the callable has returned and the value to push is the return
  value (\<^verbatim>\<open>None\<close> when \<^verbatim>\<open>do_xcom_push\<close> is off), the checks run in this order and the first
  that fails decides, leaving the world as it was: with \<^verbatim>\<open>multiple_outputs\<close>, a value that
  is not \<^verbatim>\<open>None\<close> and not a mapping fails with the expected-dictionary (type mismatch)
  error, and a mapping with a key that is not a string fails with the key-type error;
  then, if the original task has mapped dependants and is not itself a mapped operator,
  \<^verbatim>\<open>None\<close> fails with \<^verbatim>\<open>XComForMappingNotPushed\<close>, a value that is not mappable with
  \<^verbatim>\<open>UnmappableXComTypePushed\<close>, and a mappable value longer than \<^verbatim>\<open>max_map_length\<close> with
  \<^verbatim>\<open>UnmappableXComLengthPushed\<close>. When the original task is a mapped operator or has no
  mapped dependants, a value that passes the first two checks is returned.
\<close>

theorem execute_task_push_errors:
  assumes "task ti = Some t" and "\<not> is_mapped_operator t"
    and "call_with_timeout utcnow run ti t w = (Inr result, w1)"
    and "xcom_value = (if do_xcom_push t then result else None)"
  shows
   "(xcom_value = Some v \<and> multiple_outputs t \<and> \<not> is_mapping v \<longrightarrow>
       execute_task mp len mx utcnow run ti task_orig w
         = (Inl AirflowException_expected_dictionary, w1))
    \<and> (xcom_value = Some v \<and> multiple_outputs t \<and> is_mapping v
         \<and> list_ex (\<lambda>k. \<not> is_str k) (map fst (mapping_items v)) \<longrightarrow>
       execute_task mp len mx utcnow run ti task_orig w
         = (Inl AirflowException_keys_must_be_strings, w1))
    \<and> ((xcom_value = Some v \<longrightarrow>
          \<not> multiple_outputs t
          \<or> is_mapping v \<and> list_all is_str (map fst (mapping_items v)))
        \<and> mapped_dependants task_orig \<noteq> [] \<and> \<not> is_mapped_operator task_orig \<longrightarrow>
         (xcom_value = None \<longrightarrow>
            execute_task mp len mx utcnow run ti task_orig w = (Inl XComForMappingNotPushed, w1))
         \<and> (xcom_value = Some v \<and> \<not> mp v \<longrightarrow>
            execute_task mp len mx utcnow run ti task_orig w = (Inl UnmappableXComTypePushed, w1))
         \<and> (xcom_value = Some v \<and> mp v \<and> mx < len v \<longrightarrow>
            execute_task mp len mx utcnow run ti task_orig w
              = (Inl UnmappableXComLengthPushed, w1)))
    \<and> ((xcom_value = Some v \<longrightarrow>
          \<not> multiple_outputs t
          \<or> is_mapping v \<and> list_all is_str (map fst (mapping_items v)))
        \<and> (xcom_value = None \<or> xcom_value = Some v)
        \<and> (mapped_dependants task_orig = [] \<or> is_mapped_operator task_orig) \<longrightarrow>
         fst (execute_task mp len mx utcnow run ti task_orig w) = Inr result)"
  using assms
  by (auto simp: execute_task_def push_result_def record_task_map_for_downstreams_def
      list_ex_iff list_all_iff Let_def split: option.splits)

theorem execute_task_push_errors_witness:
  "execute_task example_is_mappable example_map_length 2 5000 (Inr (Some (ListValue [IntValue 1])))
      (example_ti\<lparr>task := Some (example_task\<lparr>multiple_outputs := True\<rparr>)\<rparr>) example_task
      example_world
     = (Inl AirflowException_expected_dictionary, example_world)
   \<and> execute_task example_is_mappable example_map_length 2 5000
      (Inr (Some (DictValue [(StrKey ''a'', IntValue 1), (OtherKey 2, IntValue 2)])))
      (example_ti\<lparr>task := Some (example_task\<lparr>multiple_outputs := True\<rparr>)\<rparr>) example_task
      example_world
     = (Inl AirflowException_keys_must_be_strings, example_world)
   \<and> execute_task example_is_mappable example_map_length 2 5000 (Inr None) example_ti
      (example_task\<lparr>mapped_dependants := [''load'']\<rparr>) example_world
     = (Inl XComForMappingNotPushed, example_world)
   \<and> execute_task example_is_mappable example_map_length 2 5000 (Inr (Some (IntValue 5))) example_ti
      (example_task\<lparr>mapped_dependants := [''load'']\<rparr>) example_world
     = (Inl UnmappableXComTypePushed, example_world)
   \<and> execute_task example_is_mappable example_map_length 2 5000
      (Inr (Some (ListValue [IntValue 1, IntValue 2, IntValue 3]))) example_ti
      (example_task\<lparr>mapped_dependants := [''load'']\<rparr>) example_world
     = (Inl UnmappableXComLengthPushed, example_world)
   \<and> fst (execute_task example_is_mappable example_map_length 2 5000
      (Inr (Some (ListValue [IntValue 1, IntValue 2]))) example_ti
      example_task example_world)
     = Inr (Some (ListValue [IntValue 1, IntValue 2]))"
proof -
  let ?multi = "example_task\<lparr>multiple_outputs := True\<rparr>"
  let ?tim = "example_ti\<lparr>task := Some ?multi\<rparr>"
  let ?orig = "example_task\<lparr>mapped_dependants := [''load'']\<rparr>"
  have tm: "task ?tim = Some ?multi" and te: "task example_ti = Some example_task"
    by (simp_all add: example_ti_def)
  have nm: "\<not> is_mapped_operator ?multi" "\<not> is_mapped_operator example_task"
    by (simp_all add: example_task_def)
  have cm: "call_with_timeout 5000 (Inr r) ?tim ?multi example_world = (Inr r, example_world)"
    and ce: "call_with_timeout 5000 (Inr r) example_ti example_task example_world
      = (Inr r, example_world)" for r
    by (simp_all add: call_with_timeout_def execute_callable_def example_task_def)
  have xm: "r = (if do_xcom_push ?multi then r else None)"
    and xe: "r = (if do_xcom_push example_task then r else None)" for r :: "xcom_value option"
    by (simp_all add: example_task_def)
  have 1: "execute_task example_is_mappable example_map_length 2 5000
      (Inr (Some (ListValue [IntValue 1]))) ?tim example_task example_world
     = (Inl AirflowException_expected_dictionary, example_world)"
    using execute_task_push_errors [where v = "ListValue [IntValue 1]" and mp = example_is_mappable
        and len = example_map_length and mx = 2 and task_orig = example_task,
        OF tm nm(1) cm xm]
    by (simp add: is_mapping_def example_task_def)
  have 2: "execute_task example_is_mappable example_map_length 2 5000
      (Inr (Some (DictValue [(StrKey ''a'', IntValue 1), (OtherKey 2, IntValue 2)])))
      ?tim example_task example_world
     = (Inl AirflowException_keys_must_be_strings, example_world)"
    using execute_task_push_errors
        [where v = "DictValue [(StrKey ''a'', IntValue 1), (OtherKey 2, IntValue 2)]"
        and mp = example_is_mappable and len = example_map_length and mx = 2
        and task_orig = example_task, OF tm nm(1) cm xm]
    by (simp add: is_mapping_def mapping_items_def is_str_def example_task_def)
  have d: "mapped_dependants ?orig \<noteq> [] \<and> \<not> is_mapped_operator ?orig"
    and mo: "\<not> multiple_outputs example_task"
    by (simp_all add: example_task_def)
  have 3: "execute_task example_is_mappable example_map_length 2 5000 (Inr None) example_ti
      ?orig example_world = (Inl XComForMappingNotPushed, example_world)"
    using execute_task_push_errors [where v = "IntValue 0" and mp = example_is_mappable
        and len = example_map_length and mx = 2 and task_orig = ?orig and result = None,
        OF te nm(2) ce xe] d mo
    by simp
  have 4: "execute_task example_is_mappable example_map_length 2 5000 (Inr (Some (IntValue 5)))
      example_ti ?orig example_world = (Inl UnmappableXComTypePushed, example_world)"
    using execute_task_push_errors [where v = "IntValue 5" and mp = example_is_mappable
        and len = example_map_length and mx = 2 and task_orig = ?orig, OF te nm(2) ce xe] d mo
    by (simp add: example_is_mappable_def)
  have 5: "execute_task example_is_mappable example_map_length 2 5000
      (Inr (Some (ListValue [IntValue 1, IntValue 2, IntValue 3]))) example_ti ?orig example_world
     = (Inl UnmappableXComLengthPushed, example_world)"
    using execute_task_push_errors [where v = "ListValue [IntValue 1, IntValue 2, IntValue 3]"
        and mp = example_is_mappable and len = example_map_length and mx = 2
        and task_orig = ?orig, OF te nm(2) ce xe] d mo
    by (simp add: example_is_mappable_def example_map_length_def)
  have 6: "fst (execute_task example_is_mappable example_map_length 2 5000
      (Inr (Some (ListValue [IntValue 1, IntValue 2]))) example_ti example_task example_world)
     = Inr (Some (ListValue [IntValue 1, IntValue 2]))"
    using execute_task_push_errors [where v = "ListValue [IntValue 1, IntValue 2]"
        and mp = example_is_mappable and len = example_map_length and mx = 2
        and task_orig = example_task, OF te nm(2) ce xe] mo
    by (simp add: example_task_def)
  show ?thesis using 1 2 3 4 5 6 by simp
qed

text \<open>
  A task with mapped dependants that returns \<^verbatim>\<open>None\<close> does not always fail: when the
  original task is itself a mapped operator, no map summary is validated.
\<close>

theorem execute_task_push_counterexample:
  "mapped_dependants (example_task\<lparr>is_mapped_operator := True, mapped_dependants := [''load'']\<rparr>) \<noteq> []
   \<and> execute_task example_is_mappable example_map_length 1024 5000 (Inr None) example_ti
        (example_task\<lparr>is_mapped_operator := True, mapped_dependants := [''load'']\<rparr>) example_world
      = (Inr None, example_world)"
  by (simp add: execute_task_def call_with_timeout_def execute_callable_def push_result_def
      record_task_map_for_downstreams_def example_ti_def example_task_def)


subsection \<open>Admission to running\<close>






subsection \<open>Failure of a task already finished from outside\<close>



subsection \<open>Fail-fast propagation\<close>


















end
